theory Spec2Isabelle
  imports Complex_Main
begin

section \<open>Data model of \<open>utils.py\<close>\<close>

text \<open>
  Numeric conventions. The arrays of the program hold finite floating-point values; a
  value is modelled by the real number it denotes, comparison, minimum, maximum and
  truncation are the exact ones, and the product by 10000 and the mean are taken in the
  reals (rounding is not modelled). The only non-finite value the modelled code can produce
  from finite input is the NaN that \<open>np.average\<close> returns on an empty list; it is a
  constructor of \<open>npfloat\<close>. Exceptions are values of \<open>py_error\<close>, and a function that can
  raise returns \<open>py_error + 'a\<close>.
\<close>

datatype py_error = ValueError | IndexError | OtherError

datatype npfloat = NaN | Val real

datatype BodyPart =
    NOSE | LEFT_EYE | RIGHT_EYE | LEFT_EAR | RIGHT_EAR
  | LEFT_SHOULDER | RIGHT_SHOULDER | LEFT_ELBOW | RIGHT_ELBOW
  | LEFT_WRIST | RIGHT_WRIST | LEFT_HIP | RIGHT_HIP
  | LEFT_KNEE | RIGHT_KNEE | LEFT_ANKLE | RIGHT_ANKLE

text \<open>The members of the enumeration in definition order (\<open>for bp in BodyPart\<close>).\<close>

definition BodyPart_members :: "BodyPart list" where
  "BodyPart_members =
     [NOSE, LEFT_EYE, RIGHT_EYE, LEFT_EAR, RIGHT_EAR,
      LEFT_SHOULDER, RIGHT_SHOULDER, LEFT_ELBOW, RIGHT_ELBOW,
      LEFT_WRIST, RIGHT_WRIST, LEFT_HIP, RIGHT_HIP,
      LEFT_KNEE, RIGHT_KNEE, LEFT_ANKLE, RIGHT_ANKLE]"

text \<open>The integer value of a member (\<open>bp.value\<close>).\<close>

fun BodyPart_value :: "BodyPart \<Rightarrow> nat" where
  "BodyPart_value NOSE = 0"
| "BodyPart_value LEFT_EYE = 1"
| "BodyPart_value RIGHT_EYE = 2"
| "BodyPart_value LEFT_EAR = 3"
| "BodyPart_value RIGHT_EAR = 4"
| "BodyPart_value LEFT_SHOULDER = 5"
| "BodyPart_value RIGHT_SHOULDER = 6"
| "BodyPart_value LEFT_ELBOW = 7"
| "BodyPart_value RIGHT_ELBOW = 8"
| "BodyPart_value LEFT_WRIST = 9"
| "BodyPart_value RIGHT_WRIST = 10"
| "BodyPart_value LEFT_HIP = 11"
| "BodyPart_value RIGHT_HIP = 12"
| "BodyPart_value LEFT_KNEE = 13"
| "BodyPart_value RIGHT_KNEE = 14"
| "BodyPart_value LEFT_ANKLE = 15"
| "BodyPart_value RIGHT_ANKLE = 16"

text \<open>
  Lookup by value, \<open>BodyPart(i)\<close>: the member whose value is \<open>i\<close>; Python raises
  ValueError when there is none (here \<open>None\<close>, turned into the error by the caller).
\<close>

definition BodyPart_of :: "nat \<Rightarrow> BodyPart option" where
  "BodyPart_of i = find (\<lambda>bp. BodyPart_value bp = i) BodyPart_members"

record Point =
  x :: real
  y :: real

record Rectangle =
  start_point :: Point
  end_point :: Point

record KeyPoint =
  body_part :: BodyPart
  coordinate :: Point
  score :: real

text \<open>The field \<open>id\<close> of \<open>Person\<close> is written \<open>id'\<close>; its default is \<open>None\<close>.\<close>

record Person =
  keypoints :: "KeyPoint list"
  bounding_box :: Rectangle
  score :: npfloat
  id' :: "int option"

section \<open>\<open>person_from_keypoints_with_scores\<close>\<close>

text \<open>Python's \<open>int(v)\<close> on a finite float: truncation toward zero.\<close>

definition py_int :: "real \<Rightarrow> int" where
  "py_int v = (if 0 \<le> v then \<lfloor>v\<rfloor> else \<lceil>v\<rceil>)"

text \<open>
  The loop of lines 82 to 87 over \<open>range(scores.shape[0])\<close>: \<open>i\<close> is the loop index, the
  rows still to visit are the second argument, \<open>acc\<close> is the list \<open>keypoints\<close> built so
  far. \<open>BodyPart(i)\<close> raises ValueError from index 17 on.
\<close>

fun append_keypoints ::
  "nat \<Rightarrow> (real \<times> real \<times> real) list \<Rightarrow> KeyPoint list \<Rightarrow> py_error + KeyPoint list" where
  "append_keypoints i [] acc = Inr acc"
| "append_keypoints i (row # rows) acc =
     (case BodyPart_of i of
        None \<Rightarrow> Inl ValueError
      | Some bp \<Rightarrow>
          append_keypoints (Suc i) rows
            (acc @ [\<lparr>body_part = bp,
                     coordinate = \<lparr>x = of_int (py_int (fst row)),
                                   y = of_int (py_int (fst (snd row)))\<rparr>,
                     score = snd (snd row)\<rparr>]))"

text \<open>\<open>np.average\<close> of a list: NaN (with a warning only) on the empty list.\<close>

definition np_average :: "real list \<Rightarrow> npfloat" where
  "np_average vs = (if vs = [] then NaN else Val (sum_list vs / real (length vs)))"

text \<open>
  The input array of shape \<open>[n, 3]\<close> is the list of its rows \<open>(x, y, score)\<close>.
  \<open>np.amin\<close> and \<open>np.amax\<close> raise ValueError on an empty column.
\<close>

definition person_from_keypoints_with_scores ::
  "(real \<times> real \<times> real) list \<Rightarrow> real \<Rightarrow> real \<Rightarrow> real \<Rightarrow> py_error + Person" where
  "person_from_keypoints_with_scores keypoints_with_scores image_height image_width
       keypoint_score_threshold =
     (let kpts_x = map fst keypoints_with_scores;
          kpts_y = map (\<lambda>row. fst (snd row)) keypoints_with_scores;
          scores = map (\<lambda>row. snd (snd row)) keypoints_with_scores
      in case append_keypoints 0 keypoints_with_scores [] of
           Inl e \<Rightarrow> Inl e
         | Inr kps \<Rightarrow>
             if keypoints_with_scores = [] then Inl ValueError
             else
               let start_pt = \<lparr>x = of_int (py_int (Min (set kpts_x))),
                               y = of_int (py_int (Min (set kpts_y)))\<rparr>;
                   end_pt = \<lparr>x = of_int (py_int (Max (set kpts_x))),
                             y = of_int (py_int (Max (set kpts_y)))\<rparr>;
                   scores_above_threshold =
                     filter (\<lambda>s. s > keypoint_score_threshold) scores
               in Inr \<lparr>keypoints = kps,
                       bounding_box = \<lparr>start_point = start_pt, end_point = end_pt\<rparr>,
                       score = np_average scores_above_threshold,
                       id' = None\<rparr>)"

text \<open>The default value of the parameter \<open>keypoint_score_threshold\<close>.\<close>

definition default_keypoint_score_threshold :: real where
  "default_keypoint_score_threshold = 0.1"

section \<open>The decision rule and \<open>detect_cheating\<close> of \<open>cheatdetection.py\<close>\<close>

text \<open>
  Lines 45 to 51 on the squeezed prediction vector. \<open>prediction[0]\<close> and
  \<open>prediction[1]\<close> raise IndexError when the vector is too short; \<open>prediction[1]\<close> is only
  read when the first test succeeds. The result is \<open>predicted_class\<close>: 0, 1 or 2.
\<close>

definition predicted_class :: "real list \<Rightarrow> py_error + nat" where
  "predicted_class prediction =
     (case prediction of
        [] \<Rightarrow> Inl IndexError
      | p0 # rest \<Rightarrow>
          if p0 = Max (set prediction) then
            (case rest of
               [] \<Rightarrow> Inl IndexError
             | p1 # _ \<Rightarrow> if p0 \<ge> 10000 * p1 then Inr 0 else Inr 1)
          else Inr 2)"

text \<open>The three decisions, as the values of \<open>predicted_class\<close>.\<close>

definition CHEATING :: nat where "CHEATING = 0"
definition NOT_CHEATING :: nat where "NOT_CHEATING = 1"
definition UNCERTAIN :: nat where "UNCERTAIN = 2"

text \<open>
  The collaborators of \<open>detect_cheating\<close> whose code is outside the two source files are
  parameters, collected in one record: the pose detector (\<open>self.detector.detect\<close>),
  \<open>landmarks_to_embedding\<close> of the training module on the flat row of 51 values,
  \<open>self.model.predict\<close>, which returns a batch of rows, and \<open>cv2.rectangle\<close> with its
  arguments image, two corner points, colour (in OpenCV's blue, green, red order) and
  line thickness. The first three may raise. The frame type \<open>'img\<close> is left open, and
  the variable \<open>image\<close> of the source is written \<open>img\<close>.
\<close>

record 'img CheatDetection =
  detect :: "'img \<Rightarrow> py_error + Person list"
  landmarks_to_embedding :: "real list \<Rightarrow> py_error + real list"
  predict :: "real list \<Rightarrow> py_error + real list list"
  rectangle :: "'img \<Rightarrow> int \<times> int \<Rightarrow> int \<times> int \<Rightarrow> int \<times> int \<times> int \<Rightarrow> int \<Rightarrow> 'img"

text \<open>\<open>np.squeeze(a, 0)\<close>: ValueError unless axis 0 has size one.\<close>

definition squeeze0 :: "'a list list \<Rightarrow> py_error + 'a list" where
  "squeeze0 a = (case a of [row] \<Rightarrow> Inr row | _ \<Rightarrow> Inl ValueError)"

text \<open>
  Lines 35 to 51 for one person. Assigning the 51 column names (three per member of
  \<open>BodyPart\<close>) to the one-row data frame raises ValueError when the person does not
  have 17 keypoints.
\<close>

definition classify_person ::
  "('img, 'z) CheatDetection_scheme \<Rightarrow> Person \<Rightarrow> py_error + nat" where
  "classify_person self person =
     (let keypoints_array =
            map (\<lambda>kp. [x (coordinate kp), y (coordinate kp), KeyPoint.score kp])
              (keypoints person);
          flat = concat keypoints_array
      in if length flat \<noteq> 3 * length BodyPart_members then Inl ValueError
         else
           case landmarks_to_embedding self flat of
             Inl e \<Rightarrow> Inl e
           | Inr embedding \<Rightarrow>
               (case predict self embedding of
                  Inl e \<Rightarrow> Inl e
                | Inr prediction \<Rightarrow>
                    (case squeeze0 prediction of
                       Inl e \<Rightarrow> Inl e
                     | Inr squeezed \<Rightarrow> predicted_class squeezed)))"

text \<open>
  The corner points handed to \<open>cv2.rectangle\<close> (lines 56 and 57), and the call of
  line 58.
\<close>

definition box_start :: "Person \<Rightarrow> int \<times> int" where
  "box_start person =
     (py_int (x (start_point (bounding_box person))),
      py_int (y (start_point (bounding_box person))))"

definition box_end :: "Person \<Rightarrow> int \<times> int" where
  "box_end person =
     (py_int (x (end_point (bounding_box person))),
      py_int (y (end_point (bounding_box person))))"

definition draw_box :: "('img, 'z) CheatDetection_scheme \<Rightarrow> 'img \<Rightarrow> Person \<Rightarrow> 'img" where
  "draw_box self img person =
     rectangle self img (box_start person) (box_end person) (0, 0, 255) 2"

text \<open>
  The loop of lines 34 to 58 over the persons still to visit, with the variables
  \<open>image\<close> and \<open>cheating_detected\<close> as explicit state. An exception leaves the loop
  and the function.
\<close>

fun persons_loop ::
  "('img, 'z) CheatDetection_scheme \<Rightarrow> Person list \<Rightarrow> 'img \<Rightarrow> bool \<Rightarrow> py_error + 'img \<times> bool" where
  "persons_loop self [] img cheating_detected = Inr (img, cheating_detected)"
| "persons_loop self (person # persons) img cheating_detected =
     (case classify_person self person of
        Inl e \<Rightarrow> Inl e
      | Inr c \<Rightarrow>
          if c = 0 then persons_loop self persons (draw_box self img person) True
          else persons_loop self persons img cheating_detected)"

text \<open>
  \<open>detect_cheating\<close>, lines 28 to 60: the detector is called once; an empty result
  returns the frame and \<open>False\<close> at once, otherwise the loop runs from the flag \<open>False\<close>.
\<close>

definition detect_cheating ::
  "('img, 'z) CheatDetection_scheme \<Rightarrow> 'img \<Rightarrow> py_error + 'img \<times> bool" where
  "detect_cheating self img =
     (case detect self img of
        Inl e \<Rightarrow> Inl e
      | Inr persons \<Rightarrow>
          if persons = [] then Inr (img, False)
          else persons_loop self persons img False)"

section \<open>Example data\<close>

text \<open>
  A raw keypoint array of shape \<open>[17, 3]\<close>, persons with 17 keypoints, and a set of
  collaborators for \<open>detect_cheating\<close>: the frame is the list of the rectangles drawn on
  it, the detector returns a given list of persons, the embedding is the flat row
  itself, and the classifier looks at the first value of the embedding only (it raises
  on a negative one).
\<close>

definition example_rows :: "(real \<times> real \<times> real) list" where
  "example_rows =
     [(100.5, 40.25, 0.9), (104.75, 36, 0.8), (96.5, 36.5, 0.85), (110, 38, 0.05),
      (91.25, 38.5, 0.6), (120, 70, 0.7), (80.5, 70.75, 0.75), (130, 110, 0.1),
      (70, 110.5, 0.4), (135.5, 150, 0.3), (65, 150.25, 0.2), (112, 160, 0.5),
      (88, 160.5, 0.55), (114, 220, 0.08), (86.5, 220, 0.09), (115, 279.9, 0.02),
      (85, 280, 0.01)]"

type_synonym canvas = "((int \<times> int) \<times> (int \<times> int) \<times> (int \<times> int \<times> int) \<times> int) list"

definition demo_person :: "real \<Rightarrow> real \<Rightarrow> Person" where
  "demo_person cx cy =
     \<lparr>keypoints =
        map (\<lambda>bp. \<lparr>body_part = bp,
                    coordinate = \<lparr>x = cx + real (BodyPart_value bp),
                                  y = cy + 2 * real (BodyPart_value bp)\<rparr>,
                    score = 0.5\<rparr>) BodyPart_members,
      bounding_box = \<lparr>start_point = \<lparr>x = cx, y = cy\<rparr>,
                      end_point = \<lparr>x = cx + 16, y = cy + 32\<rparr>\<rparr>,
      score = Val 0.5,
      id' = None\<rparr>"

definition demo_self :: "Person list \<Rightarrow> canvas CheatDetection" where
  "demo_self persons =
     \<lparr>detect = (\<lambda>img. Inr persons),
      landmarks_to_embedding = (\<lambda>flat. Inr flat),
      predict = (\<lambda>embedding.
         case embedding of
           [] \<Rightarrow> Inl ValueError
         | v # _ \<Rightarrow>
             if v < 0 then Inl OtherError
             else if v < 100 then Inr [[0.9999, 0.00005, 0.00005]]
             else if v < 200 then Inr [[0.6, 0.3, 0.1]]
             else Inr [[0.3, 0.5, 0.2]]),
      rectangle = (\<lambda>img pt1 pt2 color thickness. img @ [(pt1, pt2, color, thickness)])\<rparr>"

section \<open>Facts about the model\<close>

lemma py_int_mono: "a \<le> b \<Longrightarrow> py_int a \<le> py_int b"
proof -
  assume le: "a \<le> b"
  show ?thesis
  proof (cases "0 \<le> a")
    case True
    with le have "0 \<le> b" by simp
    with True le show ?thesis by (simp add: py_int_def floor_mono)
  next
    case False
    show ?thesis
    proof (cases "0 \<le> b")
      case True
      have lo: "\<lceil>a\<rceil> \<le> 0" using False by (simp add: ceiling_le_zero)
      have hi: "0 \<le> \<lfloor>b\<rfloor>" using True by simp
      have "\<lceil>a\<rceil> \<le> \<lfloor>b\<rfloor>" by (rule order_trans [OF lo hi])
      then show ?thesis using False True by (simp add: py_int_def)
    next
      case b: False
      with False le show ?thesis by (simp add: py_int_def ceiling_mono)
    qed
  qed
qed

lemma py_int_of_int: "py_int (of_int k) = k"
  by (simp add: py_int_def)

lemma BodyPart_of_upto:
  "\<forall>n \<in> set [0..<17]. BodyPart_of n = Some (BodyPart_members ! n)"
  by (simp add: upt_rec BodyPart_of_def BodyPart_members_def)

lemma BodyPart_of_nth: "i < 17 \<Longrightarrow> BodyPart_of i = Some (BodyPart_members ! i)"
  using BodyPart_of_upto by simp

lemma length_BodyPart_members: "length BodyPart_members = 17"
  by (simp add: BodyPart_members_def)

lemma append_keypoints_eq:
  "i + length rows \<le> 17 \<Longrightarrow>
   append_keypoints i rows acc =
     Inr (acc @ map (\<lambda>(bp, row).
                  \<lparr>body_part = bp,
                   coordinate = \<lparr>x = of_int (py_int (fst row)),
                                 y = of_int (py_int (fst (snd row)))\<rparr>,
                   score = snd (snd row)\<rparr>)
                (zip (drop i BodyPart_members) rows))"
proof (induction rows arbitrary: i acc)
  case Nil
  then show ?case by simp
next
  case (Cons row rows)
  from Cons.prems have lt: "i < 17" and le: "Suc i + length rows \<le> 17" by simp_all
  have d: "drop i BodyPart_members = BodyPart_members ! i # drop (Suc i) BodyPart_members"
    using lt by (simp add: Cons_nth_drop_Suc length_BodyPart_members)
  show ?case
    by (simp add: BodyPart_of_nth [OF lt] Cons.IH [OF le] d)
qed

lemma person_keypoints:
  assumes "length kws = 17"
  shows "\<exists>person. person_from_keypoints_with_scores kws h w t = Inr person
     \<and> keypoints person =
         map (\<lambda>(bp, row).
                  \<lparr>body_part = bp,
                   coordinate = \<lparr>x = of_int (py_int (fst row)),
                                 y = of_int (py_int (fst (snd row)))\<rparr>,
                   score = snd (snd row)\<rparr>) (zip BodyPart_members kws)
     \<and> bounding_box person =
         \<lparr>start_point = \<lparr>x = of_int (py_int (Min (set (map fst kws)))),
                         y = of_int (py_int (Min (set (map (\<lambda>row. fst (snd row)) kws))))\<rparr>,
          end_point = \<lparr>x = of_int (py_int (Max (set (map fst kws)))),
                       y = of_int (py_int (Max (set (map (\<lambda>row. fst (snd row)) kws))))\<rparr>\<rparr>
     \<and> Person.score person =
         np_average (filter (\<lambda>s. s > t) (map (\<lambda>row. snd (snd row)) kws))"
proof -
  have ne: "kws \<noteq> []" using assms by auto
  have "append_keypoints 0 kws [] =
     Inr ([] @ map (\<lambda>(bp, row).
                  \<lparr>body_part = bp,
                   coordinate = \<lparr>x = of_int (py_int (fst row)),
                                 y = of_int (py_int (fst (snd row)))\<rparr>,
                   score = snd (snd row)\<rparr>)
                (zip (drop 0 BodyPart_members) kws))"
    by (rule append_keypoints_eq) (simp add: assms)
  then show ?thesis
    using ne by (simp add: person_from_keypoints_with_scores_def Let_def)
qed

text \<open>Arrays with no row or with more than 17 rows make the function raise.\<close>

lemma BodyPart_of_none: "17 \<le> i \<Longrightarrow> BodyPart_of i = None"
  by (auto simp add: BodyPart_of_def BodyPart_members_def find_None_iff)

lemma append_keypoints_overflow:
  "17 < i + length rows \<Longrightarrow> append_keypoints i rows acc = Inl ValueError \<or> rows = []"
proof (induction rows arbitrary: i acc)
  case Nil
  then show ?case by simp
next
  case (Cons row rows)
  show ?case
  proof (cases "17 \<le> i")
    case True
    then show ?thesis by (simp add: BodyPart_of_none)
  next
    case False
    then have lt: "i < 17" by simp
    with Cons.prems have more: "17 < Suc i + length rows" and ne: "rows \<noteq> []" by auto
    from Cons.IH [OF more] ne show ?thesis
      by (simp add: BodyPart_of_nth [OF lt])
  qed
qed

lemma person_from_too_many_rows:
  "17 < length kws \<Longrightarrow> person_from_keypoints_with_scores kws h w t = Inl ValueError"
  using append_keypoints_overflow [of 0 kws "[]"]
  by (auto simp add: person_from_keypoints_with_scores_def)

lemma person_from_no_rows:
  "person_from_keypoints_with_scores [] h w t = Inl ValueError"
  by (simp add: person_from_keypoints_with_scores_def)

lemma persons_loop_success:
  "\<forall>p \<in> set ps. \<exists>c. classify_person self p = Inr c \<Longrightarrow>
   persons_loop self ps img cd =
     Inr (foldl (draw_box self) img (filter (\<lambda>p. classify_person self p = Inr 0) ps),
          cd \<or> (\<exists>p \<in> set ps. classify_person self p = Inr 0))"
proof (induction ps arbitrary: img cd)
  case Nil
  then show ?case by simp
next
  case (Cons p ps)
  then obtain c where c: "classify_person self p = Inr c" by auto
  from Cons.prems have rest: "\<forall>q \<in> set ps. \<exists>c. classify_person self q = Inr c" by simp
  show ?case
    by (cases "c = 0") (simp_all add: c Cons.IH [OF rest])
qed

lemma persons_loop_returns:
  "persons_loop self ps img cd = Inr r \<Longrightarrow> \<forall>p \<in> set ps. \<exists>c. classify_person self p = Inr c"
proof (induction ps arbitrary: img cd)
  case Nil
  then show ?case by simp
next
  case (Cons p ps)
  then show ?case
    by (auto split: sum.splits if_splits)
qed

lemma persons_loop_abort:
  "\<forall>p \<in> set before. \<exists>c. classify_person self p = Inr c \<Longrightarrow>
   classify_person self person = Inl e \<Longrightarrow>
   persons_loop self (before @ person # after) img cd = Inl e"
proof (induction before arbitrary: img cd)
  case Nil
  then show ?case by simp
next
  case (Cons p ps)
  then obtain c where c: "classify_person self p = Inr c" by auto
  from Cons.prems have rest: "\<forall>q \<in> set ps. \<exists>c. classify_person self q = Inr c" by simp
  show ?case
    by (cases "c = 0") (simp_all add: c Cons.IH [OF rest Cons.prems(2)])
qed

lemma classify_demo_person:
  "classify_person (demo_self ps) (demo_person cx cy) =
     (if cx < 0 then Inl OtherError
      else if cx < 100 then Inr 0 else if cx < 200 then Inr 1 else Inr 2)"
  by (simp add: classify_person_def demo_self_def demo_person_def BodyPart_members_def
      squeeze0_def predicted_class_def Let_def)

lemma detect_demo_self: "detect (demo_self ps) img = Inr ps"
  by (simp add: demo_self_def)

lemma draw_box_demo:
  "draw_box (demo_self ps) img (demo_person 10 20) = img @ [((10, 20), (26, 52), (0, 0, 255), 2)]"
  by (simp add: draw_box_def demo_self_def demo_person_def box_start_def box_end_def py_int_def)

lemma classify_person_keypoint_count:
  "length (keypoints person) \<noteq> 17 \<Longrightarrow> classify_person self person = Inl ValueError"
  by (simp add: classify_person_def length_concat comp_def sum_list_triv
      length_BodyPart_members)

lemma classify_person_rectangle:
  "classify_person (self\<lparr>rectangle := rct\<rparr>) person = classify_person self person"
  by (simp add: classify_person_def Let_def split: sum.splits)

lemma no_cheating_unchanged:
  assumes "detect self img = Inr persons"
    and "\<forall>p \<in> set persons. classify_person self p = Inr NOT_CHEATING
                          \<or> classify_person self p = Inr UNCERTAIN"
  shows "detect_cheating self img = Inr (img, False)"
proof -
  have ok: "\<forall>p \<in> set persons. \<exists>c. classify_person self p = Inr c"
    using assms(2) by auto
  have none: "filter (\<lambda>p. classify_person self p = Inr 0) persons = []"
    using assms(2) by (auto simp add: filter_empty_conv NOT_CHEATING_def UNCERTAIN_def)
  have no: "\<not> (\<exists>p \<in> set persons. classify_person self p = Inr 0)"
    using assms(2) by (auto simp add: NOT_CHEATING_def UNCERTAIN_def)
  show ?thesis
    using no by (simp add: detect_cheating_def assms(1) persons_loop_success [OF ok] none)
qed

section \<open>The decision rule\<close>




section \<open>Construction of a person from raw keypoints\<close>

text \<open>
  Claim C5. For every array of 17 rows the function returns a person with exactly 17
  keypoints whose body parts are the members of \<open>BodyPart\<close> in enumeration order (their
  values are 0 to 16 in order, each once); the bounding box has its start point below or
  equal to its end point in both coordinates; and every keypoint coordinate of the
  returned person lies inside the bounding box.
\<close>

theorem person_keypoints_order_and_box:
  assumes "length keypoints_with_scores = 17"
  shows "\<exists>person.
      person_from_keypoints_with_scores keypoints_with_scores image_height image_width
        keypoint_score_threshold = Inr person
    \<and> length (keypoints person) = 17
    \<and> map body_part (keypoints person) = BodyPart_members
    \<and> map (\<lambda>kp. BodyPart_value (body_part kp)) (keypoints person) = [0..<17]
    \<and> x (start_point (bounding_box person)) \<le> x (end_point (bounding_box person))
    \<and> y (start_point (bounding_box person)) \<le> y (end_point (bounding_box person))
    \<and> (\<forall>kp \<in> set (keypoints person).
          x (start_point (bounding_box person)) \<le> x (coordinate kp)
        \<and> x (coordinate kp) \<le> x (end_point (bounding_box person))
        \<and> y (start_point (bounding_box person)) \<le> y (coordinate kp)
        \<and> y (coordinate kp) \<le> y (end_point (bounding_box person)))"
proof -
  let ?kws = keypoints_with_scores
  let ?mk = "\<lambda>(bp, row).
                  \<lparr>body_part = bp,
                   coordinate = \<lparr>x = of_int (py_int (fst row)),
                                 y = of_int (py_int (fst (snd row)))\<rparr>,
                   score = snd (snd row)\<rparr>"
  obtain person where
    res: "person_from_keypoints_with_scores ?kws image_height image_width
            keypoint_score_threshold = Inr person"
    and kps: "keypoints person = map ?mk (zip BodyPart_members ?kws)"
    and box: "bounding_box person =
         \<lparr>start_point = \<lparr>x = of_int (py_int (Min (set (map fst ?kws)))),
                         y = of_int (py_int (Min (set (map (\<lambda>row. fst (snd row)) ?kws))))\<rparr>,
          end_point = \<lparr>x = of_int (py_int (Max (set (map fst ?kws)))),
                       y = of_int (py_int (Max (set (map (\<lambda>row. fst (snd row)) ?kws))))\<rparr>\<rparr>"
    using person_keypoints [OF assms] by blast
  have ne: "?kws \<noteq> []" using assms by auto
  have len: "length (keypoints person) = 17"
    by (simp add: kps assms length_BodyPart_members)
  have "map body_part (keypoints person) = map fst (zip BodyPart_members ?kws)"
    by (simp add: kps case_prod_unfold)
  also have "\<dots> = BodyPart_members"
    by (simp add: assms length_BodyPart_members)
  finally have parts: "map body_part (keypoints person) = BodyPart_members" .
  have "map (\<lambda>kp. BodyPart_value (body_part kp)) (keypoints person)
          = map BodyPart_value (map body_part (keypoints person))"
    by simp
  also have "\<dots> = [0..<17]"
    unfolding parts by (simp add: BodyPart_members_def upt_rec)
  finally have vals:
    "map (\<lambda>kp. BodyPart_value (body_part kp)) (keypoints person) = [0..<17]" .
  have xs: "Min (set (map fst ?kws)) \<le> fst row \<and> fst row \<le> Max (set (map fst ?kws))"
    if "row \<in> set ?kws" for row
    using that by (simp add: Min_le Max_ge)
  have ys: "Min (set (map (\<lambda>row. fst (snd row)) ?kws)) \<le> fst (snd row)
          \<and> fst (snd row) \<le> Max (set (map (\<lambda>row. fst (snd row)) ?kws))"
    if "row \<in> set ?kws" for row
    using that by (simp add: Min_le Max_ge)
  have inside: "x (start_point (bounding_box person)) \<le> x (coordinate kp)
        \<and> x (coordinate kp) \<le> x (end_point (bounding_box person))
        \<and> y (start_point (bounding_box person)) \<le> y (coordinate kp)
        \<and> y (coordinate kp) \<le> y (end_point (bounding_box person))"
    if "kp \<in> set (keypoints person)" for kp
  proof -
    from that obtain bp row where row: "row \<in> set ?kws" and kp: "kp = ?mk (bp, row)"
      unfolding kps by (auto dest: set_zip_rightD)
    show ?thesis
      using xs [OF row] ys [OF row] by (simp add: kp box py_int_mono)
  qed
  obtain row where row: "row \<in> set ?kws" using ne by (cases ?kws) auto
  have ordered: "x (start_point (bounding_box person)) \<le> x (end_point (bounding_box person))
    \<and> y (start_point (bounding_box person)) \<le> y (end_point (bounding_box person))"
    using xs [OF row] ys [OF row] by (simp add: box) (meson order_trans py_int_mono)
  show ?thesis
    using res len parts vals ordered inside by blast
qed

theorem person_keypoints_order_and_box_witness:
  "length example_rows = 17 \<and>
   (\<exists>person.
      person_from_keypoints_with_scores example_rows 480 640
        default_keypoint_score_threshold = Inr person
    \<and> length (keypoints person) = 17
    \<and> map body_part (keypoints person) = BodyPart_members
    \<and> bounding_box person =
         \<lparr>start_point = \<lparr>x = 65, y = 36\<rparr>, end_point = \<lparr>x = 135, y = 280\<rparr>\<rparr>
    \<and> (\<forall>kp \<in> set (keypoints person).
          x (start_point (bounding_box person)) \<le> x (coordinate kp)
        \<and> x (coordinate kp) \<le> x (end_point (bounding_box person))
        \<and> y (start_point (bounding_box person)) \<le> y (coordinate kp)
        \<and> y (coordinate kp) \<le> y (end_point (bounding_box person))))"
proof -
  have len: "length example_rows = 17" by (simp add: example_rows_def)
  have box: "bounding_box person =
         \<lparr>start_point = \<lparr>x = 65, y = 36\<rparr>, end_point = \<lparr>x = 135, y = 280\<rparr>\<rparr>"
    if "person_from_keypoints_with_scores example_rows 480 640
        default_keypoint_score_threshold = Inr person" for person
    using that
    by (auto simp add: person_from_keypoints_with_scores_def example_rows_def Let_def py_int_def
        split: sum.splits)
  show ?thesis
    using len box
      person_keypoints_order_and_box [OF len, of 480 640 default_keypoint_score_threshold]
    by blast
qed



text \<open>
  Claim C7, as stated, fails: the coordinates of a keypoint are not the input pair but
  its truncation to whole numbers. The first row of the example array has x = 100.5 and
  the keypoint built from it has x = 100.
\<close>

theorem coordinates_taken_as_provided_counterexample:
  "\<exists>person.
      person_from_keypoints_with_scores example_rows 480 640
        default_keypoint_score_threshold = Inr person
    \<and> x (coordinate (keypoints person ! 0)) = 100
    \<and> fst (example_rows ! 0) = 100.5
    \<and> x (coordinate (keypoints person ! 0)) \<noteq> fst (example_rows ! 0)"
proof -
  have len: "length example_rows = 17" by (simp add: example_rows_def)
  obtain person where
    res: "person_from_keypoints_with_scores example_rows 480 640
            default_keypoint_score_threshold = Inr person"
    and kps: "keypoints person = map (\<lambda>(bp, row).
                  \<lparr>body_part = bp,
                   coordinate = \<lparr>x = of_int (py_int (fst row)),
                                 y = of_int (py_int (fst (snd row)))\<rparr>,
                   score = snd (snd row)\<rparr>) (zip BodyPart_members example_rows)"
    using person_keypoints [OF len] by blast
  have "x (coordinate (keypoints person ! 0)) = 100"
    unfolding kps by (simp add: example_rows_def BodyPart_members_def py_int_def)
  moreover have "fst (example_rows ! 0) = 100.5"
    by (simp add: example_rows_def)
  ultimately show ?thesis using res by auto
qed

text \<open>
  Claim C7, amended. For every array of 17 rows, the coordinate of each keypoint of the
  returned person is the pair of the corresponding input row with each component
  truncated toward zero to a whole number; nothing else is applied (no rescaling), so
  the coordinates equal the input pairs when these are whole numbers.
\<close>

theorem coordinates_truncated_not_rescaled:
  assumes "length keypoints_with_scores = 17"
  shows "\<exists>person.
      person_from_keypoints_with_scores keypoints_with_scores image_height image_width
        keypoint_score_threshold = Inr person
    \<and> map (\<lambda>kp. (x (coordinate kp), y (coordinate kp))) (keypoints person)
        = map (\<lambda>row. (of_int (py_int (fst row)), of_int (py_int (fst (snd row)))))
            keypoints_with_scores
    \<and> ((\<forall>row \<in> set keypoints_with_scores. fst row \<in> \<int> \<and> fst (snd row) \<in> \<int>) \<longrightarrow>
         map (\<lambda>kp. (x (coordinate kp), y (coordinate kp))) (keypoints person)
           = map (\<lambda>row. (fst row, fst (snd row))) keypoints_with_scores)"
proof -
  let ?kws = keypoints_with_scores
  let ?mk = "\<lambda>(bp, row).
                  \<lparr>body_part = bp,
                   coordinate = \<lparr>x = of_int (py_int (fst row)),
                                 y = of_int (py_int (fst (snd row)))\<rparr>,
                   score = snd (snd row)\<rparr>"
  obtain person where
    res: "person_from_keypoints_with_scores ?kws image_height image_width
            keypoint_score_threshold = Inr person"
    and kps: "keypoints person = map ?mk (zip BodyPart_members ?kws)"
    using person_keypoints [OF assms] by blast
  have "map (\<lambda>kp. (x (coordinate kp), y (coordinate kp))) (keypoints person)
      = map (\<lambda>row. (of_int (py_int (fst row)), of_int (py_int (fst (snd row)))))
          (map snd (zip BodyPart_members ?kws))"
    by (simp add: kps case_prod_unfold)
  also have "map snd (zip BodyPart_members ?kws) = ?kws"
    by (simp add: assms length_BodyPart_members)
  finally have trunc:
    "map (\<lambda>kp. (x (coordinate kp), y (coordinate kp))) (keypoints person)
        = map (\<lambda>row. (of_int (py_int (fst row)), of_int (py_int (fst (snd row))))) ?kws" .
  have whole: "map (\<lambda>row. (real_of_int (py_int (fst row)), real_of_int (py_int (fst (snd row))))) ?kws
           = map (\<lambda>row. (fst row, fst (snd row))) ?kws"
    if "\<forall>row \<in> set ?kws. fst row \<in> \<int> \<and> fst (snd row) \<in> \<int>"
    using that by (auto simp add: Ints_def py_int_of_int)
  show ?thesis
    using res trunc whole by auto
qed

theorem coordinates_truncated_not_rescaled_witness:
  "length example_rows = 17
   \<and> (\<exists>person.
        person_from_keypoints_with_scores example_rows 480 640
          default_keypoint_score_threshold = Inr person
      \<and> take 3 (map (\<lambda>kp. (x (coordinate kp), y (coordinate kp))) (keypoints person))
          = [(100, 40), (104, 36), (96, 36)])
   \<and> (\<exists>person.
        person_from_keypoints_with_scores (replicate 17 (3, 4, 1)) 480 640
          default_keypoint_score_threshold = Inr person
      \<and> map (\<lambda>kp. (x (coordinate kp), y (coordinate kp))) (keypoints person)
          = replicate 17 (3, 4))"
proof -
  have len: "length example_rows = 17" by (simp add: example_rows_def)
  have len2: "length (replicate 17 (3::real, 4::real, 1::real)) = 17" by simp
  have t: "take 3 (map (\<lambda>row. (real_of_int (py_int (fst row)), real_of_int (py_int (fst (snd row)))))
             example_rows) = [(100, 40), (104, 36), (96, 36)]"
    by (simp add: example_rows_def py_int_def)
  have w: "\<forall>row \<in> set (replicate 17 (3::real, 4::real, 1::real)). fst row \<in> \<int> \<and> fst (snd row) \<in> \<int>"
    by simp
  have m: "map (\<lambda>row. (fst row, fst (snd row))) (replicate 17 (3::real, 4::real, 1::real))
             = replicate 17 (3, 4)"
    by simp
  show ?thesis
    using len t w m
      coordinates_truncated_not_rescaled [OF len, of 480 640 default_keypoint_score_threshold]
      coordinates_truncated_not_rescaled [OF len2, of 480 640 default_keypoint_score_threshold]
    by (metis (no_types, lifting))
qed

text \<open>
  Claim C9. The result does not depend on \<open>image_height\<close> and \<open>image_width\<close>: two calls
  that differ only in these arguments return the same value (the same person or the
  same error).
\<close>

theorem person_independent_of_image_size:
  "person_from_keypoints_with_scores keypoints_with_scores image_height image_width
     keypoint_score_threshold
   = person_from_keypoints_with_scores keypoints_with_scores image_height' image_width'
       keypoint_score_threshold"
  by (simp add: person_from_keypoints_with_scores_def)

section \<open>The frame pipeline\<close>

text \<open>
  Claim C2. With \<open>persons\<close> the list the detector returns for the frame: when every
  person is classified without an exception, \<open>detect_cheating\<close> returns, and the boolean is
  true exactly when some person's decision is CHEATING; whenever it returns, the boolean
  has that value. When the detector returns no person, the result is the frame itself
  with false, whatever the embedding function, the classifier and the drawing function
  are, so none of them contributes to it.
\<close>

theorem frame_flag_is_or_over_persons:
  assumes "detect self img = Inr persons"
  shows "((\<forall>p \<in> set persons. \<exists>c. classify_person self p = Inr c) \<longrightarrow>
            (\<exists>img'. detect_cheating self img =
               Inr (img', \<exists>p \<in> set persons. classify_person self p = Inr CHEATING)))
       \<and> (\<forall>img' b. detect_cheating self img = Inr (img', b) \<longrightarrow>
            (b \<longleftrightarrow> (\<exists>p \<in> set persons. classify_person self p = Inr CHEATING)))
       \<and> (persons = [] \<longrightarrow>
            detect_cheating
              (self\<lparr>landmarks_to_embedding := lte, predict := prd, rectangle := rct\<rparr>) img
              = Inr (img, False))"
proof (intro conjI impI allI)
  assume ok: "\<forall>p \<in> set persons. \<exists>c. classify_person self p = Inr c"
  show "\<exists>img'. detect_cheating self img =
          Inr (img', \<exists>p \<in> set persons. classify_person self p = Inr CHEATING)"
    by (cases "persons = []")
      (simp_all add: detect_cheating_def assms CHEATING_def persons_loop_success [OF ok])
next
  fix img' b
  assume ret: "detect_cheating self img = Inr (img', b)"
  show "b \<longleftrightarrow> (\<exists>p \<in> set persons. classify_person self p = Inr CHEATING)"
  proof (cases "persons = []")
    case True
    with ret show ?thesis by (simp add: detect_cheating_def assms)
  next
    case False
    with ret have loop: "persons_loop self persons img False = Inr (img', b)"
      by (simp add: detect_cheating_def assms)
    from persons_loop_success [OF persons_loop_returns [OF loop], of img False] loop
    show ?thesis by (simp add: CHEATING_def)
  qed
next
  assume "persons = []"
  then show "detect_cheating
      (self\<lparr>landmarks_to_embedding := lte, predict := prd, rectangle := rct\<rparr>) img
      = Inr (img, False)"
    by (simp add: detect_cheating_def assms)
qed

theorem frame_flag_is_or_over_persons_witness:
  "detect (demo_self [demo_person 150 20, demo_person 10 20]) [] =
     Inr [demo_person 150 20, demo_person 10 20]
   \<and> classify_person (demo_self [demo_person 150 20, demo_person 10 20]) (demo_person 150 20)
       = Inr NOT_CHEATING
   \<and> classify_person (demo_self [demo_person 150 20, demo_person 10 20]) (demo_person 10 20)
       = Inr CHEATING
   \<and> (\<exists>img'. detect_cheating (demo_self [demo_person 150 20, demo_person 10 20]) []
               = Inr (img', True))
   \<and> detect (demo_self []) [] = Inr []
   \<and> detect_cheating ((demo_self []) \<lparr>landmarks_to_embedding := (\<lambda>flat. Inl OtherError),
         predict := (\<lambda>embedding. Inl OtherError),
         rectangle := (\<lambda>img pt1 pt2 color thickness. [])\<rparr>) [] = Inr ([], False)"
proof -
  let ?ps = "[demo_person 150 20, demo_person 10 20]"
  have d: "detect (demo_self ?ps) [] = Inr ?ps" by (rule detect_demo_self)
  have d0: "detect (demo_self []) [] = Inr []" by (rule detect_demo_self)
  have c1: "classify_person (demo_self ?ps) (demo_person 150 20) = Inr NOT_CHEATING"
    by (simp add: classify_demo_person NOT_CHEATING_def)
  have c2: "classify_person (demo_self ?ps) (demo_person 10 20) = Inr CHEATING"
    by (simp add: classify_demo_person CHEATING_def)
  have ok: "\<forall>p \<in> set ?ps. \<exists>c. classify_person (demo_self ?ps) p = Inr c"
    by (simp add: c1 c2)
  have any: "(\<exists>p \<in> set ?ps. classify_person (demo_self ?ps) p = Inr CHEATING) = True"
    by (simp add: c2)
  from frame_flag_is_or_over_persons [OF d] ok
  have "\<exists>img'. detect_cheating (demo_self ?ps) [] =
          Inr (img', \<exists>p \<in> set ?ps. classify_person (demo_self ?ps) p = Inr CHEATING)"
    by blast
  then have f: "\<exists>img'. detect_cheating (demo_self ?ps) [] = Inr (img', True)"
    unfolding any .
  from frame_flag_is_or_over_persons [OF d0]
  have e: "detect_cheating ((demo_self []) \<lparr>landmarks_to_embedding := (\<lambda>flat. Inl OtherError),
         predict := (\<lambda>embedding. Inl OtherError),
         rectangle := (\<lambda>img pt1 pt2 color thickness. [])\<rparr>) [] = Inr ([], False)"
    by blast
  show ?thesis using d d0 c1 c2 f e by blast
qed

text \<open>
  Claim C4. The returned frame is the input frame after one call of \<open>cv2.rectangle\<close> for
  each person whose decision is CHEATING, in the order of the persons, with the corners
  of that person's bounding box, the colour (0, 0, 255), which is red in OpenCV's channel
  order, and thickness 2. Persons with another decision contribute no call.
\<close>

theorem cheating_persons_get_red_box:
  assumes "detect self img = Inr persons"
  shows "((\<forall>p \<in> set persons. \<exists>c. classify_person self p = Inr c) \<longrightarrow>
            (\<exists>b. detect_cheating self img =
               Inr (foldl (\<lambda>im p. rectangle self im (box_start p) (box_end p) (0, 0, 255) 2) img
                      (filter (\<lambda>p. classify_person self p = Inr CHEATING) persons), b)))
       \<and> (\<forall>img' b. detect_cheating self img = Inr (img', b) \<longrightarrow>
            img' = foldl (\<lambda>im p. rectangle self im (box_start p) (box_end p) (0, 0, 255) 2) img
                     (filter (\<lambda>p. classify_person self p = Inr CHEATING) persons))"
proof -
  have draw: "(\<lambda>im p. rectangle self im (box_start p) (box_end p) (0, 0, 255) 2) = draw_box self"
    by (simp add: draw_box_def fun_eq_iff)
  have total: "\<exists>b. detect_cheating self img =
      Inr (foldl (draw_box self) img (filter (\<lambda>p. classify_person self p = Inr 0) persons), b)"
    if ok: "\<forall>p \<in> set persons. \<exists>c. classify_person self p = Inr c"
    by (cases "persons = []")
      (auto simp add: detect_cheating_def assms persons_loop_success [OF ok])
  have partial: "img' = foldl (draw_box self) img (filter (\<lambda>p. classify_person self p = Inr 0) persons)"
    if ret: "detect_cheating self img = Inr (img', b)" for img' b
  proof (cases "persons = []")
    case True
    with ret show ?thesis by (simp add: detect_cheating_def assms)
  next
    case False
    with ret have loop: "persons_loop self persons img False = Inr (img', b)"
      by (simp add: detect_cheating_def assms)
    from persons_loop_success [OF persons_loop_returns [OF loop], of img False] loop
    show ?thesis by simp
  qed
  show ?thesis
    unfolding draw CHEATING_def using total partial by blast
qed

theorem cheating_persons_get_red_box_witness:
  "detect (demo_self [demo_person 150 20, demo_person 10 20, demo_person 250 20]) [] =
     Inr [demo_person 150 20, demo_person 10 20, demo_person 250 20]
   \<and> (\<exists>b. detect_cheating (demo_self [demo_person 150 20, demo_person 10 20, demo_person 250 20]) []
            = Inr ([((10, 20), (26, 52), (0, 0, 255), 2)], b))"
proof -
  let ?ps = "[demo_person 150 20, demo_person 10 20, demo_person 250 20]"
  have d: "detect (demo_self ?ps) [] = Inr ?ps" by (rule detect_demo_self)
  have ok: "\<forall>p \<in> set ?ps. \<exists>c. classify_person (demo_self ?ps) p = Inr c"
    by (simp add: classify_demo_person)
  have flt: "filter (\<lambda>p. classify_person (demo_self ?ps) p = Inr CHEATING) ?ps = [demo_person 10 20]"
    by (simp add: classify_demo_person CHEATING_def)
  have box: "rectangle (demo_self ?ps) [] (box_start (demo_person 10 20)) (box_end (demo_person 10 20))
               (0, 0, 255) 2 = [((10, 20), (26, 52), (0, 0, 255), 2)]"
    using draw_box_demo [of ?ps "[]"] by (simp add: draw_box_def)
  from cheating_persons_get_red_box [OF d] ok
  have "\<exists>b. detect_cheating (demo_self ?ps) [] =
               Inr (foldl (\<lambda>im p. rectangle (demo_self ?ps) im (box_start p) (box_end p) (0, 0, 255) 2) []
                      (filter (\<lambda>p. classify_person (demo_self ?ps) p = Inr CHEATING) ?ps), b)"
    by blast
  then have "\<exists>b. detect_cheating (demo_self ?ps) [] = Inr ([((10, 20), (26, 52), (0, 0, 255), 2)], b)"
    unfolding flt by (simp add: box)
  with d show ?thesis by blast
qed

text \<open>
  Claim C10. If every person of a frame is classified NOT_CHEATING or UNCERTAIN, the
  list of persons being empty or not, \<open>detect_cheating\<close> returns the frame as it was given
  together with false, and it does so whatever the drawing function is: nothing is drawn.
\<close>

theorem no_cheating_frame_unchanged:
  assumes "detect self img = Inr persons"
    and "\<forall>p \<in> set persons. classify_person self p = Inr NOT_CHEATING
                          \<or> classify_person self p = Inr UNCERTAIN"
  shows "detect_cheating self img = Inr (img, False)
       \<and> detect_cheating (self\<lparr>rectangle := rct\<rparr>) img = Inr (img, False)"
proof
  show "detect_cheating self img = Inr (img, False)"
    using assms by (rule no_cheating_unchanged)
next
  have d: "detect (self\<lparr>rectangle := rct\<rparr>) img = Inr persons"
    using assms(1) by simp
  have c: "\<forall>p \<in> set persons.
             classify_person (self\<lparr>rectangle := rct\<rparr>) p = Inr NOT_CHEATING
           \<or> classify_person (self\<lparr>rectangle := rct\<rparr>) p = Inr UNCERTAIN"
    using assms(2) by (simp add: classify_person_rectangle)
  show "detect_cheating (self\<lparr>rectangle := rct\<rparr>) img = Inr (img, False)"
    using d c by (rule no_cheating_unchanged)
qed

theorem no_cheating_frame_unchanged_witness:
  "detect (demo_self [demo_person 150 20, demo_person 250 20]) [((1, 2), (3, 4), (5, 6, 7), 8)]
     = Inr [demo_person 150 20, demo_person 250 20]
   \<and> classify_person (demo_self [demo_person 150 20, demo_person 250 20]) (demo_person 150 20)
       = Inr NOT_CHEATING
   \<and> classify_person (demo_self [demo_person 150 20, demo_person 250 20]) (demo_person 250 20)
       = Inr UNCERTAIN
   \<and> detect_cheating (demo_self [demo_person 150 20, demo_person 250 20])
       [((1, 2), (3, 4), (5, 6, 7), 8)] = Inr ([((1, 2), (3, 4), (5, 6, 7), 8)], False)"
proof -
  let ?ps = "[demo_person 150 20, demo_person 250 20]"
  have d: "detect (demo_self ?ps) [((1, 2), (3, 4), (5, 6, 7), 8)] = Inr ?ps"
    by (rule detect_demo_self)
  have c1: "classify_person (demo_self ?ps) (demo_person 150 20) = Inr NOT_CHEATING"
    by (simp add: classify_demo_person NOT_CHEATING_def)
  have c2: "classify_person (demo_self ?ps) (demo_person 250 20) = Inr UNCERTAIN"
    by (simp add: classify_demo_person UNCERTAIN_def)
  have h: "\<forall>p \<in> set ?ps. classify_person (demo_self ?ps) p = Inr NOT_CHEATING
                          \<or> classify_person (demo_self ?ps) p = Inr UNCERTAIN"
    by (simp add: c1 c2)
  show ?thesis
    using d c1 c2 no_cheating_frame_unchanged [OF d h] by blast
qed

text \<open>
  Claim C8, as stated, fails: a person whose classification raises is not skipped. In a
  frame with two persons where the classifier raises on the first, \<open>detect_cheating\<close>
  raises as well, although the second person alone would have been flagged and boxed.
\<close>

theorem per_person_failure_isolated_counterexample:
  "classify_person (demo_self [demo_person (-1) 20, demo_person 10 20]) (demo_person (-1) 20)
     = Inl OtherError
   \<and> detect_cheating (demo_self [demo_person (-1) 20, demo_person 10 20]) [] = Inl OtherError
   \<and> detect_cheating (demo_self [demo_person 10 20]) []
       = Inr ([((10, 20), (26, 52), (0, 0, 255), 2)], True)"
  by (simp add: detect_cheating_def detect_demo_self classify_demo_person draw_box_demo)

text \<open>
  Claim C8, amended. Failures are not isolated per person: if the persons before some
  person are classified without an exception and the embedding or the classification of
  that person raises, \<open>detect_cheating\<close> raises the same exception; it returns neither a
  frame nor a boolean, and the persons after the failing one are not visited.
\<close>

theorem per_person_failure_aborts_frame:
  assumes "detect self img = Inr (before @ person # after)"
    and "\<forall>p \<in> set before. \<exists>c. classify_person self p = Inr c"
    and "classify_person self person = Inl e"
  shows "detect_cheating self img = Inl e"
  using persons_loop_abort [OF assms(2) assms(3), of after img False]
  by (simp add: detect_cheating_def assms(1))

theorem per_person_failure_aborts_frame_witness:
  "detect (demo_self [demo_person 10 20, demo_person (-1) 20, demo_person 50 20]) []
     = Inr ([demo_person 10 20] @ demo_person (-1) 20 # [demo_person 50 20])
   \<and> classify_person (demo_self [demo_person 10 20, demo_person (-1) 20, demo_person 50 20])
       (demo_person 10 20) = Inr CHEATING
   \<and> classify_person (demo_self [demo_person 10 20, demo_person (-1) 20, demo_person 50 20])
       (demo_person (-1) 20) = Inl OtherError
   \<and> detect_cheating (demo_self [demo_person 10 20, demo_person (-1) 20, demo_person 50 20]) []
       = Inl OtherError"
proof -
  let ?ps = "[demo_person 10 20, demo_person (-1) 20, demo_person 50 20]"
  have d: "detect (demo_self ?ps) [] = Inr ([demo_person 10 20] @ demo_person (-1) 20 # [demo_person 50 20])"
    by (simp add: detect_demo_self)
  have c1: "classify_person (demo_self ?ps) (demo_person 10 20) = Inr CHEATING"
    by (simp add: classify_demo_person CHEATING_def)
  have c2: "classify_person (demo_self ?ps) (demo_person (-1) 20) = Inl OtherError"
    by (simp add: classify_demo_person)
  have ok: "\<forall>p \<in> set [demo_person 10 20]. \<exists>c. classify_person (demo_self ?ps) p = Inr c"
    by (simp add: c1)
  show ?thesis
    using d c1 c2 per_person_failure_aborts_frame [OF d ok c2] by blast
qed

end
